theory Spec2Isabelle
  imports Main
begin

section \<open>The command shell of \<open>app/commands/__init__.py\<close>\<close>

text \<open>
  The module defines the abstract class \<open>Command\<close>, the registry \<open>CommandHandler\<close> and the
  application \<open>App\<close>, whose \<open>start\<close> discovers plugins and then runs the read-dispatch loop.
  Plugins, the file system, the terminal and the logging subsystem are outside the module:
  they enter the model as parameters (the listing of the plugin directory with the result of
  each import, the sequence of events at the prompt) and as traces in the state (the calls
  to \<open>logging\<close>, the calls to \<open>print\<close>).
\<close>

subsection \<open>Exceptions\<close>

text \<open>
  The exception classes the module can meet. \<open>ModuleNotFoundError\<close> is Python's subclass of
  \<open>ImportError\<close>; \<open>OtherException cls msg\<close> stands for an exception of any class \<open>cls\<close> that
  derives from none of \<open>ImportError\<close>, \<open>KeyboardInterrupt\<close> and \<open>SystemExit\<close>.
\<close>

datatype exn =
    ImportError string
  | ModuleNotFoundError string
  | SyntaxError string
  | TypeError string
  | NameError string
  | EOFError
  | KeyboardInterrupt
  | SystemExit int
  | OtherException string string

text \<open>
  \<open>except ImportError as e\<close>: the clause matches instances of \<open>ImportError\<close> and of its
  subclasses; \<open>catch_ImportError\<close> gives \<open>str(e)\<close> of a matching exception.
\<close>

fun catch_ImportError :: "exn \<Rightarrow> string option" where
  "catch_ImportError (ImportError msg) = Some msg"
| "catch_ImportError (ModuleNotFoundError msg) = Some msg"
| "catch_ImportError _ = None"

subsection \<open>Commands and the application state\<close>

text \<open>
  A command is an instance of a concrete subclass of \<open>Command\<close>, supplied by a plugin. The
  module only ever calls its \<open>execute()\<close>, which returns a text or raises; the instance is
  identified by the name of its class. A command that does not return, or that reaches back
  into the application object, is outside the model.
\<close>

datatype command = Command (class_of: string) (execute: "exn + string")

text \<open>
  \<open>register_command\<close> stores whatever object it is given, and \<open>execute_command\<close> tests the
  looked-up value against \<open>None\<close>, so the values of the dictionary are \<open>None\<close> or a command.
\<close>

datatype pyobj = PyNone | CommandObj command

datatype level = INFO | WARNING | ERROR

text \<open>
  The state: \<open>commands\<close> is \<open>CommandHandler.commands\<close> of the application's handler;
  \<open>logs\<close> is the sequence of calls \<open>logging.info/warning/error\<close>; \<open>printed\<close> is the sequence
  of arguments of \<open>print\<close> (the prompt written by \<open>input\<close> is not recorded). Two traces make
  "consulted" and "invoked" observable: \<open>dispatched\<close> lists the keys \<open>execute_command\<close> was
  called with, \<open>invoked\<close> the commands whose \<open>execute()\<close> ran.
\<close>

record app =
  commands :: "string \<rightharpoonup> pyobj"
  logs :: "(level \<times> string) list"
  printed :: "string list"
  dispatched :: "string list"
  invoked :: "command list"

definition logging :: "level \<Rightarrow> string \<Rightarrow> app \<Rightarrow> app" where
  "logging lv msg a = a\<lparr>logs := logs a @ [(lv, msg)]\<rparr>"

definition print :: "string \<Rightarrow> app \<Rightarrow> app" where
  "print text a = a\<lparr>printed := printed a @ [text]\<rparr>"

text \<open>A text between single quotes, as the f-strings of the log messages write it.\<close>

definition quoted :: "string \<Rightarrow> string" where
  "quoted s = CHR 0x27 # s @ [CHR 0x27]"

subsection \<open>\<open>CommandHandler\<close>\<close>

text \<open>\<open>CommandHandler.__init__\<close>: an empty dictionary (and nothing logged or printed yet).\<close>

definition CommandHandler_init :: app where
  "CommandHandler_init =
     \<lparr>commands = Map.empty, logs = [], printed = [], dispatched = [], invoked = []\<rparr>"

text \<open>\<open>self.commands[operation] = command\<close>; a string key is hashable, so nothing is raised.\<close>

definition register_command :: "string \<Rightarrow> pyobj \<Rightarrow> app \<Rightarrow> app" where
  "register_command operation command a =
     a\<lparr>commands := (commands a)(operation \<mapsto> command)\<rparr>"

text \<open>\<open>dict.get(key)\<close>: the value, or \<open>None\<close> for a missing key.\<close>

definition dict_get :: "(string \<rightharpoonup> pyobj) \<Rightarrow> string \<Rightarrow> pyobj" where
  "dict_get d k = (case d k of None \<Rightarrow> PyNone | Some v \<Rightarrow> v)"

text \<open>
  \<open>execute_command\<close>: the result is what \<open>command.execute()\<close> gives (\<open>Inl\<close> when it raises:
  there is no handler around the call), or the message for a missing command.
\<close>

definition execute_command :: "string \<Rightarrow> app \<Rightarrow> (exn + string) \<times> app" where
  "execute_command operation a0 =
     (let a = a0\<lparr>dispatched := dispatched a0 @ [operation]\<rparr> in
      case dict_get (commands a) operation of
        CommandObj command \<Rightarrow> (execute command, a\<lparr>invoked := invoked a @ [command]\<rparr>)
      | PyNone \<Rightarrow>
          (let error_message = ''No such command: '' @ operation
           in (Inr error_message, logging ERROR error_message a)))"

subsection \<open>Plugin discovery\<close>

text \<open>
  A member of a plugin module, as the three tests of \<open>register_plugin_commands\<close> see it:
  not a type at all; the class \<open>Command\<close> itself (a plugin imports it to derive from it);
  or another class, with whether it derives from \<open>Command\<close> and what calling it without
  arguments gives (a class that leaves \<open>execute\<close> abstract raises \<open>TypeError\<close> there).
\<close>

datatype item =
    NotAType
  | CommandClass
  | Class string bool "exn + command"

text \<open>\<open>isinstance(item, type) and issubclass(item, Command) and item is not Command\<close>\<close>

fun qualifies :: "item \<Rightarrow> bool" where
  "qualifies NotAType = False"
| "qualifies CommandClass = False"
| "qualifies (Class name derives ctor) = derives"

text \<open>\<open>item()\<close>; only called on a qualifying item.\<close>

fun instantiate :: "item \<Rightarrow> exn + command" where
  "instantiate (Class name derives ctor) = ctor"
| "instantiate CommandClass =
     Inl (TypeError ''abstract class Command cannot be instantiated'')"
| "instantiate NotAType = Inl (TypeError ''object is not callable'')"

text \<open>
  A loaded module is given by its members in the order \<open>dir(plugin_module)\<close> lists them
  (by name).
\<close>

type_synonym pymodule = "(string \<times> item) list"

fun register_plugin_commands :: "pymodule \<Rightarrow> string \<Rightarrow> app \<Rightarrow> exn option \<times> app" where
  "register_plugin_commands [] plugin_name a = (None, a)"
| "register_plugin_commands ((item_name, item) # rest) plugin_name a =
     (if qualifies item then
        (case instantiate item of
           Inl e \<Rightarrow> (Some e, a)
         | Inr obj \<Rightarrow>
             register_plugin_commands rest plugin_name
               (logging INFO
                  (''Command '' @ quoted plugin_name @ '' from plugin '' @ quoted plugin_name
                     @ '' registered.'')
                  (register_command plugin_name (CommandObj obj) a)))
      else register_plugin_commands rest plugin_name a)"

text \<open>
  An entry of \<open>pkgutil.iter_modules(['app/plugins'])\<close>: the name, \<open>is_pkg\<close>, and what
  \<open>importlib.import_module('app.plugins.' + name)\<close> gives.
\<close>

type_synonym plugin_entry = "string \<times> bool \<times> (exn + pymodule)"

text \<open>The body of the \<open>try\<close> of \<open>load_plugins\<close>: import, then register.\<close>

definition load_plugin :: "string \<Rightarrow> (exn + pymodule) \<Rightarrow> app \<Rightarrow> exn option \<times> app" where
  "load_plugin plugin_name imported a =
     (case imported of
        Inl e \<Rightarrow> (Some e, a)
      | Inr plugin_module \<Rightarrow> register_plugin_commands plugin_module plugin_name a)"

text \<open>The \<open>for\<close> loop of \<open>load_plugins\<close>, with its \<open>except ImportError\<close>.\<close>

fun load_plugins_loop :: "plugin_entry list \<Rightarrow> app \<Rightarrow> exn option \<times> app" where
  "load_plugins_loop [] a = (None, a)"
| "load_plugins_loop ((plugin_name, is_pkg, imported) # rest) a =
     (if is_pkg then
        (case load_plugin plugin_name imported a of
           (None, a') \<Rightarrow> load_plugins_loop rest a'
         | (Some e, a') \<Rightarrow>
             (case catch_ImportError e of
                Some msg \<Rightarrow>
                  load_plugins_loop rest
                    (logging ERROR (''Error importing plugin '' @ plugin_name @ '': '' @ msg) a')
              | None \<Rightarrow> (Some e, a')))
      else load_plugins_loop rest a)"

text \<open>
  \<open>load_plugins\<close>: the plugin root is \<open>None\<close> when \<open>app/plugins\<close> does not exist, otherwise
  the entries \<open>iter_modules\<close> yields.
\<close>

definition load_plugins :: "plugin_entry list option \<Rightarrow> app \<Rightarrow> exn option \<times> app" where
  "load_plugins root a =
     (case root of
        None \<Rightarrow>
          (None, logging WARNING (''Plugins directory '' @ quoted ''app/plugins'' @ '' not found.'') a)
      | Some entries \<Rightarrow> load_plugins_loop entries a)"

subsection \<open>Text operations\<close>

text \<open>
  A \<open>char\<close> stands for the code point of the same number (the code points below 256).
  \<open>str.strip()\<close> removes the characters for which \<open>str.isspace\<close> holds; \<open>str.lower()\<close> maps
  the upper-case letters of that range to lower case (code point 215, the multiplication
  sign between them, is not a letter).
\<close>

definition isspace :: "char \<Rightarrow> bool" where
  "isspace c \<longleftrightarrow>
     (let n = (of_char c :: nat)
      in (9 \<le> n \<and> n \<le> 13) \<or> (28 \<le> n \<and> n \<le> 32) \<or> n = 133 \<or> n = 160)"

definition strip :: "string \<Rightarrow> string" where
  "strip s = rev (dropWhile isspace (rev (dropWhile isspace s)))"

definition lower_char :: "char \<Rightarrow> char" where
  "lower_char c =
     (let n = (of_char c :: nat)
      in if (65 \<le> n \<and> n \<le> 90) \<or> (192 \<le> n \<and> n \<le> 214) \<or> (216 \<le> n \<and> n \<le> 222)
         then char_of (n + 32) else c)"

definition lower :: "string \<Rightarrow> string" where
  "lower s = map lower_char s"

subsection \<open>The dispatch loop\<close>

text \<open>
  What happens at one call of \<open>input(">>> ")\<close>: a line is read, or the operator's interrupt
  arrives (\<open>KeyboardInterrupt\<close> is raised in the call). When the events are used up the
  input stream is at its end, and \<open>input\<close> raises \<open>EOFError\<close>.
\<close>

datatype event = Line string | Interrupt

text \<open>
  The \<open>while True\<close> loop. It has no \<open>break\<close> and no \<open>return\<close>: it ends by an exception only,
  which is the result, with the state at that moment.
\<close>

fun start_loop :: "event list \<Rightarrow> app \<Rightarrow> exn \<times> app" where
  "start_loop [] a = (EOFError, a)"
| "start_loop (Interrupt # rest) a = (KeyboardInterrupt, a)"
| "start_loop (Line text # rest) a =
     (let cmd_input = strip text in
      if lower cmd_input = ''exit'' then
        (SystemExit 0, logging INFO ''Application exit.'' a)
      else
        (case execute_command cmd_input a of
           (Inl e, a') \<Rightarrow> (e, a')
         | (Inr result, a') \<Rightarrow> start_loop rest (print result a')))"

text \<open>
  The \<open>except KeyboardInterrupt\<close> clause: it logs, then evaluates \<open>ys.exit(0)\<close>; no name
  \<open>ys\<close> is defined in the module (the import is \<open>sys\<close>), so the lookup raises \<open>NameError\<close>.
\<close>

definition on_KeyboardInterrupt :: "app \<Rightarrow> exn \<times> app" where
  "on_KeyboardInterrupt a =
     (NameError (''name '' @ quoted ''ys'' @ '' is not defined''),
      logging INFO ''Application interrupted and exiting gracefully.'' a)"

text \<open>The \<open>try\<close> statement of \<open>start\<close>: loop, \<open>except KeyboardInterrupt\<close>, \<open>finally\<close>.\<close>

definition start_try :: "event list \<Rightarrow> app \<Rightarrow> exn \<times> app" where
  "start_try events a =
     (case start_loop events a of
        (e, a1) \<Rightarrow>
          (case (if e = KeyboardInterrupt then on_KeyboardInterrupt a1 else (e, a1)) of
             (e', a2) \<Rightarrow> (e', logging INFO ''Application shutdown.'' a2)))"

definition start :: "plugin_entry list option \<Rightarrow> event list \<Rightarrow> app \<Rightarrow> exn \<times> app" where
  "start root events a =
     (case load_plugins root a of
        (Some e, a1) \<Rightarrow> (e, a1)
      | (None, a1) \<Rightarrow>
          start_try events
            (logging INFO (''Application started. Type '' @ quoted ''exit'' @ '' to exit.'') a1))"

text \<open>
  The exit status of the interpreter when the exception leaves \<open>app.start()\<close> uncaught:
  the code of a \<open>SystemExit\<close>, and 1 after the traceback of any other exception.
\<close>

fun exit_status :: "exn \<Rightarrow> int" where
  "exit_status (SystemExit code) = code"
| "exit_status _ = 1"

text \<open>
  \<open>App.__init__\<close>, as far as the state goes: the two messages of \<open>configure_logging\<close> and
  \<open>load_environment_variables\<close>, and a new handler.
\<close>

definition App_init :: app where
  "App_init =
     logging INFO ''Environment variables loaded.''
       (logging INFO ''Logging configured.'' CommandHandler_init)"

text \<open>The \<open>__main__\<close> block: the exit status and the final state of a run.\<close>

definition main :: "plugin_entry list option \<Rightarrow> event list \<Rightarrow> int \<times> app" where
  "main root events = (case start root events App_init of (e, a) \<Rightarrow> (exit_status e, a))"

subsection \<open>Sequences of registrations\<close>

text \<open>A caller registering one binding after the other, as discovery does.\<close>

fun register_all :: "(string \<times> pyobj) list \<Rightarrow> app \<Rightarrow> app" where
  "register_all [] a = a"
| "register_all ((operation, command) # rest) a =
     register_all rest (register_command operation command a)"


subsection \<open>Qualifying members\<close>

text \<open>
  The members of a module that pass the test of \<open>register_plugin_commands\<close>, in scan
  order, and whether calling such a class without arguments gives an instance (a concrete
  command type) rather than an exception.
\<close>

definition qualifying_items :: "pymodule \<Rightarrow> item list" where
  "qualifying_items plugin_module = filter qualifies (map snd plugin_module)"

definition constructs :: "item \<Rightarrow> bool" where
  "constructs item = (case instantiate item of Inl e \<Rightarrow> False | Inr obj \<Rightarrow> True)"

subsection \<open>Example commands and modules\<close>

text \<open>Two commands for the examples: one that answers, one whose \<open>execute()\<close> raises.\<close>

definition greet :: command where
  "greet = Command ''GreetCommand'' (Inr ''hello'')"

definition boom :: command where
  "boom = Command ''BoomCommand'' (Inl (OtherException ''RuntimeError'' ''boom''))"

text \<open>Plugin modules for the examples: one command type, and two.\<close>

definition greet_module :: pymodule where
  "greet_module =
     [(''Command'', CommandClass),
      (''GreetCommand'', Class ''GreetCommand'' True (Inr greet)),
      (''__name__'', NotAType)]"

definition two_module :: pymodule where
  "two_module =
     [(''BoomCommand'', Class ''BoomCommand'' True (Inr boom)),
      (''Command'', CommandClass),
      (''GreetCommand'', Class ''GreetCommand'' True (Inr greet)),
      (''Helper'', Class ''Helper'' False (Inl (TypeError ''missing argument''))),
      (''__name__'', NotAType)]"

text \<open>
  A plugin module with two concrete command types and, between them in the listing, their
  common base class, which derives from \<open>Command\<close> and leaves \<open>execute\<close> abstract: calling
  it raises \<open>TypeError\<close>.
\<close>

definition add_command :: command where
  "add_command = Command ''AddCommand'' (Inr ''sum'')"

definition subtract_command :: command where
  "subtract_command = Command ''SubtractCommand'' (Inr ''difference'')"

definition calc_module :: pymodule where
  "calc_module =
     [(''AddCommand'', Class ''AddCommand'' True (Inr add_command)),
      (''CalcCommand'', Class ''CalcCommand'' True
         (Inl (TypeError ''abstract class CalcCommand cannot be instantiated''))),
      (''Command'', CommandClass),
      (''SubtractCommand'', Class ''SubtractCommand'' True (Inr subtract_command)),
      (''__name__'', NotAType)]"

section \<open>Properties of the registry\<close>

lemma register_all_other:
  "key \<notin> fst ` set regs \<Longrightarrow> commands (register_all regs a) key = commands a key"
  by (induction regs arbitrary: a) (auto simp: register_command_def)

lemma register_all_traces:
  "logs (register_all regs a) = logs a \<and> printed (register_all regs a) = printed a \<and>
   dispatched (register_all regs a) = dispatched a \<and> invoked (register_all regs a) = invoked a"
  by (induction regs arbitrary: a) (auto simp: register_command_def)

lemma execute_command_bound:
  "commands a key = Some (CommandObj command) \<Longrightarrow>
   execute_command key a =
     (execute command,
      a\<lparr>dispatched := dispatched a @ [key], invoked := invoked a @ [command]\<rparr>)"
  by (simp add: execute_command_def dict_get_def Let_def)

lemma execute_command_unbound:
  "commands a key = None \<Longrightarrow>
   execute_command key a =
     (Inr (''No such command: '' @ key),
      a\<lparr>dispatched := dispatched a @ [key],
        logs := logs a @ [(ERROR, ''No such command: '' @ key)]\<rparr>)"
  by (simp add: execute_command_def dict_get_def logging_def Let_def)

text \<open>
  C4. A command registered under a key, with any later registrations under other keys,
  is the one command a dispatch of that key invokes (the trace of invocations grows by
  exactly that command, nothing is logged or printed by the registry), and the text its
  \<open>execute()\<close> returns is the result of the dispatch.
\<close>

theorem dispatch_after_register:
  assumes "key \<notin> fst ` set regs"
    and "execute command = Inr text"
    and "b = register_all regs (register_command key (CommandObj command) a)"
  shows "execute_command key b =
           (Inr text, b\<lparr>dispatched := dispatched b @ [key], invoked := invoked b @ [command]\<rparr>)
         \<and> invoked b = invoked a"
proof -
  have "commands b key = Some (CommandObj command)"
    using assms(1,3) by (simp add: register_all_other register_command_def)
  then have "execute_command key b =
      (execute command, b\<lparr>dispatched := dispatched b @ [key], invoked := invoked b @ [command]\<rparr>)"
    by (rule execute_command_bound)
  moreover have "invoked b = invoked a"
    using assms(3) by (simp add: register_all_traces register_command_def)
  ultimately show ?thesis using assms(2) by simp
qed

theorem dispatch_after_register_witness:
  "execute_command ''greet''
     (register_all [(''other'', CommandObj boom)]
        (register_command ''greet'' (CommandObj greet) CommandHandler_init))
   = (Inr ''hello'',
      (register_all [(''other'', CommandObj boom)]
        (register_command ''greet'' (CommandObj greet) CommandHandler_init))
        \<lparr>dispatched := [''greet''], invoked := [greet]\<rparr>)"
  using dispatch_after_register [of "''greet''" "[(''other'', CommandObj boom)]" greet "''hello''" _
      CommandHandler_init, OF _ _ refl]
  by (simp add: greet_def register_command_def CommandHandler_init_def)

text \<open>
  C5. Registering a second command under a key that is already bound raises nothing and
  leaves the registry as if only the second had been registered; a dispatch of the key
  then invokes the second command and no other.
\<close>

theorem register_last_write_wins:
  "register_command key second (register_command key first a) = register_command key second a
   \<and> execute_command key
       (register_command key (CommandObj c2) (register_command key (CommandObj c1) a))
     = (execute c2,
        (register_command key (CommandObj c2) a)
          \<lparr>dispatched := dispatched a @ [key], invoked := invoked a @ [c2]\<rparr>)"
  by (simp add: register_command_def execute_command_def dict_get_def Let_def)

theorem register_last_write_wins_witness:
  "execute_command ''greet''
     (register_command ''greet'' (CommandObj greet)
        (register_command ''greet'' (CommandObj boom) CommandHandler_init))
   = (Inr ''hello'',
      \<lparr>commands = [''greet'' \<mapsto> CommandObj greet], logs = [], printed = [],
       dispatched = [''greet''], invoked = [greet]\<rparr>)"
  using register_last_write_wins [of "''greet''" PyNone PyNone CommandHandler_init greet boom]
  by (simp add: greet_def register_command_def CommandHandler_init_def)

text \<open>
  C6. A key that is bound before no registration and is not among the keys registered
  since: its dispatch invokes no command, logs the message at error severity, and returns
  the message "No such command: " followed by the key.
\<close>

theorem dispatch_unregistered:
  assumes "commands a key = None"
    and "key \<notin> fst ` set regs"
    and "b = register_all regs a"
  shows "execute_command key b =
           (Inr (''No such command: '' @ key),
            b\<lparr>dispatched := dispatched b @ [key],
              logs := logs b @ [(ERROR, ''No such command: '' @ key)]\<rparr>)
         \<and> invoked (snd (execute_command key b)) = invoked a"
proof -
  have "commands b key = None"
    using assms by (simp add: register_all_other)
  then have "execute_command key b =
           (Inr (''No such command: '' @ key),
            b\<lparr>dispatched := dispatched b @ [key],
              logs := logs b @ [(ERROR, ''No such command: '' @ key)]\<rparr>)"
    by (rule execute_command_unbound)
  then show ?thesis using assms(3) by (simp add: register_all_traces)
qed

theorem dispatch_unregistered_witness:
  "execute_command ''unknown_key'' (register_all [(''greet'', CommandObj greet)] CommandHandler_init)
   = (Inr ''No such command: unknown_key'',
      \<lparr>commands = [''greet'' \<mapsto> CommandObj greet],
       logs = [(ERROR, ''No such command: unknown_key'')], printed = [],
       dispatched = [''unknown_key''], invoked = []\<rparr>)"
  using dispatch_unregistered [of CommandHandler_init "''unknown_key''"
      "[(''greet'', CommandObj greet)]", OF _ _ refl]
  by (simp add: register_command_def CommandHandler_init_def)

text \<open>
  C10. A dispatch leaves the mapping from keys to commands as it was, for a bound key
  and for an unbound one; \<open>register_command\<close> is the operation that changes it, at the
  key it is given.
\<close>

theorem execute_command_keeps_commands:
  "commands (snd (execute_command key a)) = commands a
   \<and> commands (register_command key command a) = (commands a)(key \<mapsto> command)"
  by (simp add: execute_command_def dict_get_def logging_def register_command_def Let_def
      split: pyobj.split option.split)


section \<open>Properties of the dispatch loop\<close>

lemma strip_lower_Exit: "lower (strip '' Exit '') = ''exit''"
  by code_simp

lemma strip_blank: "strip ''  '' = []"
  by code_simp

lemma strip_lower_boom: "strip ''boom'' = ''boom'' \<and> lower ''boom'' = ''boom''"
  by code_simp

lemma lower_empty_not_exit: "lower [] \<noteq> ''exit''"
  by (simp add: lower_def)

text \<open>
  C7. A line whose stripped, lower-cased text is \<open>exit\<close> ends the run: "Application
  exit." and then "Application shutdown." are logged, \<open>SystemExit(0)\<close> leaves the
  \<open>try\<close> statement and the exit status is 0. Whatever the registry binds (a command under
  \<open>exit\<close> included), nothing is dispatched, invoked or printed, and the rest of the input
  is not read.
\<close>

theorem exit_sentinel_terminates:
  assumes "lower (strip text) = ''exit''"
  shows "start_try (Line text # rest) a =
           (SystemExit 0,
            a\<lparr>logs := logs a @ [(INFO, ''Application exit.''), (INFO, ''Application shutdown.'')]\<rparr>)
         \<and> exit_status (fst (start_try (Line text # rest) a)) = 0"
  using assms by (simp add: start_try_def logging_def Let_def)

theorem exit_sentinel_terminates_witness:
  "start_try [Line '' Exit '', Line ''exit'']
     (register_command ''exit'' (CommandObj greet) CommandHandler_init)
   = (SystemExit 0,
      \<lparr>commands = [''exit'' \<mapsto> CommandObj greet],
       logs = [(INFO, ''Application exit.''), (INFO, ''Application shutdown.'')],
       printed = [], dispatched = [], invoked = []\<rparr>)"
  using exit_sentinel_terminates [OF strip_lower_Exit, of "[Line ''exit'']"
      "register_command ''exit'' (CommandObj greet) CommandHandler_init"]
  by (simp add: register_command_def CommandHandler_init_def)

text \<open>
  C9, as the spec states it, fails: a line of blanks strips to the empty text, which is
  not the sentinel, so the loop dispatches the empty key, and a command registered under
  it is executed and its result printed.
\<close>

theorem empty_key_dispatched_counterexample:
  "start_loop [Line ''  '']
     (register_command [] (CommandObj greet) CommandHandler_init)
   = (EOFError,
      \<lparr>commands = [[] \<mapsto> CommandObj greet], logs = [], printed = [''hello''],
       dispatched = [[]], invoked = [greet]\<rparr>)"
  by (simp add: strip_blank lower_empty_not_exit execute_command_def dict_get_def Let_def
      register_command_def CommandHandler_init_def greet_def print_def)

text \<open>
  C9, amended. Every line that is empty after stripping makes the loop dispatch the empty
  key, whatever the registry holds: the loop step is the call \<open>execute_command('')\<close>, which
  records the empty key as dispatched. A command registered under the empty text is looked
  up and invoked, its result is printed, and the loop goes on with the next line; when
  nothing is bound to the empty text, the message for a missing command is logged and
  printed, and the loop goes on as well.
\<close>

theorem blank_line_dispatches_empty_key:
  assumes "strip text = []"
  shows "start_loop (Line text # rest) a =
           (case execute_command [] a of
              (Inl e, a') \<Rightarrow> (e, a')
            | (Inr result, a') \<Rightarrow> start_loop rest (print result a'))
         \<and> dispatched (snd (execute_command [] a)) = dispatched a @ [[]]
         \<and> (commands a [] = Some (CommandObj command) \<and> execute command = Inr result \<longrightarrow>
              start_loop (Line text # rest) a =
                start_loop rest
                  (a\<lparr>dispatched := dispatched a @ [[]], invoked := invoked a @ [command],
                     printed := printed a @ [result]\<rparr>))
         \<and> (commands a [] = None \<longrightarrow>
              start_loop (Line text # rest) a =
                start_loop rest
                  (a\<lparr>dispatched := dispatched a @ [[]],
                     logs := logs a @ [(ERROR, ''No such command: '')],
                     printed := printed a @ [''No such command: '']\<rparr>))"
proof -
  have step: "start_loop (Line text # rest) a =
           (case execute_command [] a of
              (Inl e, a') \<Rightarrow> (e, a')
            | (Inr result, a') \<Rightarrow> start_loop rest (print result a'))"
    using assms by (simp add: lower_empty_not_exit Let_def)
  have trace: "dispatched (snd (execute_command [] a)) = dispatched a @ [[]]"
    by (simp add: execute_command_def dict_get_def logging_def Let_def
        split: pyobj.split option.split)
  have bound: "start_loop (Line text # rest) a =
                start_loop rest
                  (a\<lparr>dispatched := dispatched a @ [[]], invoked := invoked a @ [command],
                     printed := printed a @ [result]\<rparr>)"
    if "commands a [] = Some (CommandObj command)" and "execute command = Inr result"
    unfolding step using that by (simp add: execute_command_bound print_def)
  have unbound: "start_loop (Line text # rest) a =
                start_loop rest
                  (a\<lparr>dispatched := dispatched a @ [[]],
                     logs := logs a @ [(ERROR, ''No such command: '')],
                     printed := printed a @ [''No such command: '']\<rparr>)"
    if "commands a [] = None"
    unfolding step using that by (simp add: execute_command_unbound print_def)
  from step trace bound unbound show ?thesis by blast
qed

theorem blank_line_dispatches_empty_key_witness:
  "start_loop [Line ''  '', Line '' Exit '']
     (register_command [] (CommandObj greet) CommandHandler_init)
   = (SystemExit 0,
      \<lparr>commands = [[] \<mapsto> CommandObj greet], logs = [(INFO, ''Application exit.'')],
       printed = [''hello''], dispatched = [[]], invoked = [greet]\<rparr>)
   \<and> start_loop [Line ''  '', Line '' Exit ''] CommandHandler_init
   = (SystemExit 0,
      \<lparr>commands = Map.empty,
       logs = [(ERROR, ''No such command: ''), (INFO, ''Application exit.'')],
       printed = [''No such command: ''], dispatched = [[]], invoked = []\<rparr>)"
proof -
  let ?A = "register_command [] (CommandObj greet) CommandHandler_init"
  let ?B = "CommandHandler_init"
  note bound = blank_line_dispatches_empty_key [OF strip_blank, of "[Line '' Exit '']" ?A
      greet "''hello''"]
  note unbound = blank_line_dispatches_empty_key [OF strip_blank, of "[Line '' Exit '']" ?B
      greet "''hello''"]
  have "commands ?A [] = Some (CommandObj greet) \<and> execute greet = Inr ''hello''"
    by (simp add: register_command_def greet_def)
  with bound have 1: "start_loop [Line ''  '', Line '' Exit ''] ?A =
      start_loop [Line '' Exit '']
        (?A\<lparr>dispatched := dispatched ?A @ [[]], invoked := invoked ?A @ [greet],
            printed := printed ?A @ [''hello'']\<rparr>)"
    by blast
  have "commands ?B [] = None"
    by (simp add: CommandHandler_init_def)
  with unbound have 2: "start_loop [Line ''  '', Line '' Exit ''] ?B =
      start_loop [Line '' Exit '']
        (?B\<lparr>dispatched := dispatched ?B @ [[]],
            logs := logs ?B @ [(ERROR, ''No such command: '')],
            printed := printed ?B @ [''No such command: '']\<rparr>)"
    by blast
  have 3: "start_loop [Line '' Exit '']
        (?A\<lparr>dispatched := dispatched ?A @ [[]], invoked := invoked ?A @ [greet],
            printed := printed ?A @ [''hello'']\<rparr>)
      = (SystemExit 0,
      \<lparr>commands = [[] \<mapsto> CommandObj greet], logs = [(INFO, ''Application exit.'')],
       printed = [''hello''], dispatched = [[]], invoked = [greet]\<rparr>)"
    by (simp add: strip_lower_Exit register_command_def CommandHandler_init_def logging_def
        Let_def)
  have 4: "start_loop [Line '' Exit '']
        (?B\<lparr>dispatched := dispatched ?B @ [[]],
            logs := logs ?B @ [(ERROR, ''No such command: '')],
            printed := printed ?B @ [''No such command: '']\<rparr>)
      = (SystemExit 0,
      \<lparr>commands = Map.empty,
       logs = [(ERROR, ''No such command: ''), (INFO, ''Application exit.'')],
       printed = [''No such command: ''], dispatched = [[]], invoked = []\<rparr>)"
    by (simp add: strip_lower_Exit CommandHandler_init_def logging_def Let_def)
  show ?thesis
    unfolding 1 2 3 4 by (intro conjI refl)
qed

text \<open>
  C3. The operator's interrupt at the first prompt of a run without plugins: the handler
  logs its message and then fails at \<open>ys.exit(0)\<close> with \<open>NameError\<close>; the shutdown message
  is logged, the \<open>NameError\<close> leaves \<open>start\<close> and the exit status is 1, where the sentinel
  path (\<open>sys.exit(0)\<close>) ends with 0.
\<close>

theorem interrupt_exit_status:
  "start None [Interrupt] App_init =
     (NameError (''name '' @ quoted ''ys'' @ '' is not defined''),
      \<lparr>commands = Map.empty,
       logs = [(INFO, ''Logging configured.''), (INFO, ''Environment variables loaded.''),
               (WARNING, ''Plugins directory '' @ quoted ''app/plugins'' @ '' not found.''),
               (INFO, ''Application started. Type '' @ quoted ''exit'' @ '' to exit.''),
               (INFO, ''Application interrupted and exiting gracefully.''),
               (INFO, ''Application shutdown.'')],
       printed = [], dispatched = [], invoked = []\<rparr>)
   \<and> fst (main None [Interrupt]) = 1"
  by (simp add: main_def start_def load_plugins_def start_try_def on_KeyboardInterrupt_def
      App_init_def CommandHandler_init_def logging_def)

text \<open>
  C1, as the spec states it, fails: the exception of \<open>execute()\<close> is the outcome of the
  dispatch, nothing is logged, and in the loop it ends the run with status 1 before the
  next line is read.
\<close>

theorem failing_command_counterexample:
  "execute_command ''boom'' (register_command ''boom'' (CommandObj boom) CommandHandler_init)
   = (Inl (OtherException ''RuntimeError'' ''boom''),
      \<lparr>commands = [''boom'' \<mapsto> CommandObj boom], logs = [], printed = [],
       dispatched = [''boom''], invoked = [boom]\<rparr>)
   \<and> start_try [Line ''boom'', Line ''boom'']
       (register_command ''boom'' (CommandObj boom) CommandHandler_init)
     = (OtherException ''RuntimeError'' ''boom'',
        \<lparr>commands = [''boom'' \<mapsto> CommandObj boom], logs = [(INFO, ''Application shutdown.'')],
         printed = [], dispatched = [''boom''], invoked = [boom]\<rparr>)"
  by (simp add: strip_lower_boom start_try_def execute_command_def dict_get_def Let_def
      register_command_def CommandHandler_init_def boom_def logging_def)

text \<open>
  C1, amended. When \<open>execute()\<close> of the command bound to a key raises, the dispatch of
  the key does not catch it: \<open>execute_command\<close> logs nothing and returns no value, the
  exception reaches the caller. In the loop the exception ends the iteration and the loop
  (the rest of the input is not read), with nothing printed.
\<close>

theorem failing_command_propagates:
  assumes "commands a key = Some (CommandObj command)"
    and "execute command = Inl e"
  shows "execute_command key a =
           (Inl e, a\<lparr>dispatched := dispatched a @ [key], invoked := invoked a @ [command]\<rparr>)
         \<and> (strip text = key \<and> lower key \<noteq> ''exit'' \<longrightarrow>
              start_loop (Line text # rest) a =
                (e, a\<lparr>dispatched := dispatched a @ [key], invoked := invoked a @ [command]\<rparr>))"
  using assms by (simp add: execute_command_bound Let_def)

theorem failing_command_propagates_witness:
  "execute_command ''boom'' (register_command ''boom'' (CommandObj boom) CommandHandler_init)
   = (Inl (OtherException ''RuntimeError'' ''boom''),
      (register_command ''boom'' (CommandObj boom) CommandHandler_init)
        \<lparr>dispatched := [''boom''], invoked := [boom]\<rparr>)
   \<and> start_loop [Line ''boom'', Line ''boom'']
       (register_command ''boom'' (CommandObj boom) CommandHandler_init)
     = (OtherException ''RuntimeError'' ''boom'',
        (register_command ''boom'' (CommandObj boom) CommandHandler_init)
          \<lparr>dispatched := [''boom''], invoked := [boom]\<rparr>)"
  using failing_command_propagates [of
      "register_command ''boom'' (CommandObj boom) CommandHandler_init" "''boom''" boom
      "OtherException ''RuntimeError'' ''boom''" "''boom''" "[Line ''boom'']"]
  by (simp add: strip_lower_boom register_command_def CommandHandler_init_def boom_def Let_def)


section \<open>Properties of plugin discovery\<close>

lemma register_plugin_commands_cong:
  "commands a = commands b \<Longrightarrow>
   fst (register_plugin_commands m n a) = fst (register_plugin_commands m n b) \<and>
   commands (snd (register_plugin_commands m n a)) =
     commands (snd (register_plugin_commands m n b))"
proof (induction m arbitrary: a b)
  case Nil
  then show ?case by simp
next
  case (Cons x m)
  obtain item_name item where x: "x = (item_name, item)" by (cases x)
  show ?case
  proof (cases "qualifies item")
    case False
    have "register_plugin_commands (x # m) n a = register_plugin_commands m n a"
      and "register_plugin_commands (x # m) n b = register_plugin_commands m n b"
      using False x by simp_all
    then show ?thesis using Cons.IH [OF Cons.prems] by (simp only:)
  next
    case True
    show ?thesis
    proof (cases "instantiate item")
      case (Inl e)
      then show ?thesis using True x Cons.prems by simp
    next
      case (Inr obj)
      define f where "f = (\<lambda>s. logging INFO
          (''Command '' @ quoted n @ '' from plugin '' @ quoted n @ '' registered.'')
          (register_command n (CommandObj obj) s))"
      have "register_plugin_commands (x # m) n a = register_plugin_commands m n (f a)"
        and "register_plugin_commands (x # m) n b = register_plugin_commands m n (f b)"
        using True x Inr by (simp_all add: f_def)
      moreover have "commands (f a) = commands (f b)"
        using Cons.prems by (simp add: f_def logging_def register_command_def)
      ultimately show ?thesis using Cons.IH [of "f a" "f b"] by (simp only:)
    qed
  qed
qed

lemma register_plugin_commands_other:
  "k \<noteq> n \<Longrightarrow> commands (snd (register_plugin_commands m n a)) k = commands a k"
  by (induction m n a rule: register_plugin_commands.induct)
     (auto simp: logging_def register_command_def split: sum.splits)

lemma register_plugin_commands_logs:
  "set (logs a) \<subseteq> set (logs (snd (register_plugin_commands m n a)))"
  by (induction m n a rule: register_plugin_commands.induct)
     (auto simp: logging_def register_command_def split: sum.splits)

lemma register_plugin_commands_none:
  "qualifying_items m = [] \<Longrightarrow> register_plugin_commands m n a = (None, a)"
  by (induction m n a rule: register_plugin_commands.induct)
     (auto simp: qualifying_items_def split: if_splits)

lemma register_plugin_commands_valid:
  "\<forall>item \<in> set (qualifying_items m). constructs item \<Longrightarrow>
   fst (register_plugin_commands m n a) = None"
  by (induction m n a rule: register_plugin_commands.induct)
     (auto simp: qualifying_items_def constructs_def split: sum.splits)

lemma register_plugin_commands_last:
  "\<forall>item \<in> set (qualifying_items m). constructs item \<Longrightarrow>
   qualifying_items m \<noteq> [] \<Longrightarrow>
   instantiate (last (qualifying_items m)) = Inr c \<Longrightarrow>
   commands (snd (register_plugin_commands m n a)) = (commands a)(n \<mapsto> CommandObj c)"
proof (induction m arbitrary: a)
  case Nil
  then show ?case by (simp add: qualifying_items_def)
next
  case (Cons x m)
  obtain item_name item where x: "x = (item_name, item)" by (cases x)
  show ?case
  proof (cases "qualifies item")
    case False
    then have q: "qualifying_items (x # m) = qualifying_items m"
      using x by (simp add: qualifying_items_def)
    show ?thesis using Cons.IH [of a] Cons.prems False x unfolding q by simp
  next
    case True
    then have q: "qualifying_items (x # m) = item # qualifying_items m"
      using x by (simp add: qualifying_items_def)
    from Cons.prems(1) q obtain obj where obj: "instantiate item = Inr obj"
      by (auto simp: constructs_def split: sum.splits)
    define a1 where "a1 = logging INFO
          (''Command '' @ quoted n @ '' from plugin '' @ quoted n @ '' registered.'')
          (register_command n (CommandObj obj) a)"
    have step: "register_plugin_commands (x # m) n a = register_plugin_commands m n a1"
      using True x obj by (simp add: a1_def)
    have a1: "commands a1 = (commands a)(n \<mapsto> CommandObj obj)"
      by (simp add: a1_def logging_def register_command_def)
    show ?thesis
    proof (cases "qualifying_items m = []")
      case True
      then have "c = obj" using Cons.prems(3) q obj by simp
      moreover have "register_plugin_commands m n a1 = (None, a1)"
        using True by (rule register_plugin_commands_none)
      ultimately show ?thesis
        unfolding step using a1 by simp
    next
      case False
      then have "instantiate (last (qualifying_items m)) = Inr c"
        using Cons.prems(3) q by simp
      moreover have "\<forall>item \<in> set (qualifying_items m). constructs item"
        using Cons.prems(1) q by simp
      ultimately have "commands (snd (register_plugin_commands m n a1)) =
          (commands a1)(n \<mapsto> CommandObj c)"
        using False by (intro Cons.IH)
      then show ?thesis
        unfolding step using a1 by simp
    qed
  qed
qed

text \<open>
  C8, as the spec states it, fails: the member test does not ask whether a type is
  concrete. A sub-package with two concrete command types and an abstract subclass of
  \<open>Command\<close> between them has the first type registered, then the call of the abstract
  class raises \<open>TypeError\<close>, which is no \<open>ImportError\<close>: discovery ends with that exception
  and the key stays bound to the instance of the first type, not of the last.
\<close>

theorem abstract_subclass_counterexample:
  "length (filter constructs (qualifying_items calc_module)) = 2
   \<and> instantiate (last (filter constructs (qualifying_items calc_module)))
       = Inr subtract_command
   \<and> load_plugins (Some [(''calc'', True, Inr calc_module)]) CommandHandler_init
     = (Some (TypeError ''abstract class CalcCommand cannot be instantiated''),
        \<lparr>commands = [''calc'' \<mapsto> CommandObj add_command],
         logs = [(INFO, ''Command '' @ quoted ''calc'' @ '' from plugin '' @ quoted ''calc''
                          @ '' registered.'')],
         printed = [], dispatched = [], invoked = []\<rparr>)"
  by (simp add: load_plugins_def load_plugin_def calc_module_def qualifying_items_def
      constructs_def logging_def register_command_def CommandHandler_init_def)

text \<open>
  C8, amended. A loaded sub-package with two or more types that pass the member test
  (subclasses of \<open>Command\<close> other than \<open>Command\<close> itself), each of which can be
  instantiated without arguments: the member scan raises nothing and changes the registry
  at one key only, the sub-package's name, which ends bound to the instance of the last
  qualifying type of the scan. Discovery over a root holding just this sub-package, from
  the empty registry, ends with that single binding.
\<close>

theorem multiple_types_last_wins:
  assumes "2 \<le> length (qualifying_items plugin_module)"
    and "\<forall>item \<in> set (qualifying_items plugin_module). constructs item"
    and "instantiate (last (qualifying_items plugin_module)) = Inr c"
  shows "fst (register_plugin_commands plugin_module plugin_name a) = None
         \<and> commands (snd (register_plugin_commands plugin_module plugin_name a)) =
             (commands a)(plugin_name \<mapsto> CommandObj c)
         \<and> load_plugins (Some [(plugin_name, True, Inr plugin_module)]) CommandHandler_init =
             register_plugin_commands plugin_module plugin_name CommandHandler_init
         \<and> commands (snd (load_plugins (Some [(plugin_name, True, Inr plugin_module)])
               CommandHandler_init)) = [plugin_name \<mapsto> CommandObj c]"
proof -
  have ne: "qualifying_items plugin_module \<noteq> []"
    using assms(1) by auto
  have ok: "fst (register_plugin_commands plugin_module plugin_name s) = None" for s
    using assms(2) by (rule register_plugin_commands_valid)
  have bound: "commands (snd (register_plugin_commands plugin_module plugin_name s)) =
      (commands s)(plugin_name \<mapsto> CommandObj c)" for s
    using assms(2) ne assms(3) by (rule register_plugin_commands_last)
  have root: "load_plugins (Some [(plugin_name, True, Inr plugin_module)]) CommandHandler_init =
      register_plugin_commands plugin_module plugin_name CommandHandler_init"
    using ok [of CommandHandler_init]
    by (cases "register_plugin_commands plugin_module plugin_name CommandHandler_init")
       (simp add: load_plugins_def load_plugin_def)
  have "commands CommandHandler_init = Map.empty"
    by (simp add: CommandHandler_init_def)
  then show ?thesis
    using ok [of a] bound [of a] bound [of CommandHandler_init] root by simp
qed

theorem multiple_types_last_wins_witness:
  "commands (snd (load_plugins (Some [(''two'', True, Inr two_module)]) CommandHandler_init))
     = [''two'' \<mapsto> CommandObj greet]
   \<and> fst (register_plugin_commands two_module ''two'' CommandHandler_init) = None"
proof -
  have 1: "2 \<le> length (qualifying_items two_module)"
    by (simp add: qualifying_items_def two_module_def)
  have 2: "\<forall>item \<in> set (qualifying_items two_module). constructs item"
    by (simp add: qualifying_items_def two_module_def constructs_def)
  have 3: "instantiate (last (qualifying_items two_module)) = Inr greet"
    by (simp add: qualifying_items_def two_module_def)
  show ?thesis
    using multiple_types_last_wins [OF 1 2 3, of "''two''" CommandHandler_init]
    by (simp add: CommandHandler_init_def)
qed

text \<open>
  C2, as the spec states it, fails for a syntax defect: \<open>SyntaxError\<close> is not an
  \<open>ImportError\<close>, so it leaves \<open>load_plugins\<close>; nothing is logged and the valid
  sub-package after it is never scanned.
\<close>

theorem syntax_defect_aborts_counterexample:
  "load_plugins
     (Some [(''bad'', True, Inl (SyntaxError ''invalid syntax'')),
            (''greet'', True, Inr greet_module)])
     CommandHandler_init
   = (Some (SyntaxError ''invalid syntax''), CommandHandler_init)"
  by (simp add: load_plugins_def load_plugin_def)

text \<open>
  C2, amended. A root with one sub-package whose import raises \<open>ImportError\<close> (or its
  subclass \<open>ModuleNotFoundError\<close>) and one loadable sub-package whose qualifying types all
  instantiate, in either order: discovery is not aborted, the failure is logged at error
  severity with the failing sub-package's name and the exception's text, the registry has
  exactly the bindings the scan of the valid sub-package makes, and none is made or changed
  under the failing sub-package's name.
\<close>

theorem import_error_skipped:
  assumes "catch_ImportError e = Some msg"
    and "\<forall>item \<in> set (qualifying_items m). constructs item"
    and "bad \<noteq> good"
    and "entries = [(bad, True, Inl e), (good, True, Inr m)]
         \<or> entries = [(good, True, Inr m), (bad, True, Inl e)]"
  shows "fst (load_plugins (Some entries) a) = None
         \<and> commands (snd (load_plugins (Some entries) a)) =
             commands (snd (register_plugin_commands m good a))
         \<and> commands (snd (load_plugins (Some entries) a)) bad = commands a bad
         \<and> (ERROR, ''Error importing plugin '' @ bad @ '': '' @ msg)
             \<in> set (logs (snd (load_plugins (Some entries) a)))"
proof -
  let ?msg = "''Error importing plugin '' @ bad @ '': '' @ msg"
  have ok: "fst (register_plugin_commands m good s) = None" for s
    using assms(2) by (rule register_plugin_commands_valid)
  have other: "commands (snd (register_plugin_commands m good a)) bad = commands a bad"
    using assms(3) by (rule register_plugin_commands_other)
  from assms(4) show ?thesis
  proof
    assume entries: "entries = [(bad, True, Inl e), (good, True, Inr m)]"
    let ?a1 = "logging ERROR ?msg a"
    obtain a2 where a2: "register_plugin_commands m good ?a1 = (None, a2)"
      using ok [of ?a1] by (cases "register_plugin_commands m good ?a1") simp
    have run: "load_plugins (Some entries) a = (None, a2)"
      using entries assms(1) a2 by (simp add: load_plugins_def load_plugin_def)
    have "commands ?a1 = commands a"
      by (simp add: logging_def)
    then have same: "commands a2 = commands (snd (register_plugin_commands m good a))"
      using register_plugin_commands_cong [of ?a1 a m good] a2 by simp
    have "set (logs ?a1) \<subseteq> set (logs a2)"
      using register_plugin_commands_logs [of ?a1 m good] a2 by simp
    then have "(ERROR, ?msg) \<in> set (logs a2)"
      by (auto simp: logging_def)
    then show ?thesis using run same other by simp
  next
    assume entries: "entries = [(good, True, Inr m), (bad, True, Inl e)]"
    obtain a1 where a1: "register_plugin_commands m good a = (None, a1)"
      using ok [of a] by (cases "register_plugin_commands m good a") simp
    have run: "load_plugins (Some entries) a = (None, logging ERROR ?msg a1)"
      using entries assms(1) a1 by (simp add: load_plugins_def load_plugin_def)
    show ?thesis using run a1 other by (simp add: logging_def)
  qed
qed

theorem import_error_skipped_witness:
  "fst (load_plugins
          (Some [(''bad'', True, Inl (ModuleNotFoundError ''No module named numpy'')),
                 (''greet'', True, Inr greet_module)])
          CommandHandler_init) = None
   \<and> commands (snd (load_plugins
          (Some [(''bad'', True, Inl (ModuleNotFoundError ''No module named numpy'')),
                 (''greet'', True, Inr greet_module)])
          CommandHandler_init)) = [''greet'' \<mapsto> CommandObj greet]
   \<and> (ERROR, ''Error importing plugin bad: No module named numpy'')
       \<in> set (logs (snd (load_plugins
             (Some [(''bad'', True, Inl (ModuleNotFoundError ''No module named numpy'')),
                    (''greet'', True, Inr greet_module)])
             CommandHandler_init)))"
proof -
  have 1: "catch_ImportError (ModuleNotFoundError ''No module named numpy'')
      = Some ''No module named numpy''"
    by simp
  have 2: "\<forall>item \<in> set (qualifying_items greet_module). constructs item"
    by (simp add: qualifying_items_def greet_module_def constructs_def)
  have 3: "''bad'' \<noteq> ''greet''"
    by simp
  have scan: "commands (snd (register_plugin_commands greet_module ''greet'' CommandHandler_init))
      = [''greet'' \<mapsto> CommandObj greet]"
    by (simp add: greet_module_def logging_def register_command_def CommandHandler_init_def)
  have msg: "''Error importing plugin '' @ ''bad'' @ '': '' @ ''No module named numpy''
      = ''Error importing plugin bad: No module named numpy''"
    by simp
  note inst = import_error_skipped [OF 1 2 3 disjI1 [OF refl], of CommandHandler_init]
  from inst have a: "fst (load_plugins
          (Some [(''bad'', True, Inl (ModuleNotFoundError ''No module named numpy'')),
                 (''greet'', True, Inr greet_module)])
          CommandHandler_init) = None"
    by (rule conjunct1)
  from inst have b: "commands (snd (load_plugins
          (Some [(''bad'', True, Inl (ModuleNotFoundError ''No module named numpy'')),
                 (''greet'', True, Inr greet_module)])
          CommandHandler_init)) = [''greet'' \<mapsto> CommandObj greet]"
    unfolding scan by (rule conjunct1 [OF conjunct2])
  from inst have c: "(ERROR, ''Error importing plugin bad: No module named numpy'')
       \<in> set (logs (snd (load_plugins
             (Some [(''bad'', True, Inl (ModuleNotFoundError ''No module named numpy'')),
                    (''greet'', True, Inr greet_module)])
             CommandHandler_init)))"
    unfolding msg by (rule conjunct2 [OF conjunct2 [OF conjunct2]])
  from a b c show ?thesis by (intro conjI)
qed

end
